theory Spec2Isabelle
  imports Complex_Main "HOL-Library.Word" "HOL-Library.AList"
begin

unbundle bit_operations_syntax

section \<open>JavaScript values\<close>

text \<open>
  A JavaScript string is a sequence of 16-bit code units; \<open>length\<close> counts code units,
  as the \<open>.length\<close> of the source does. \<open>lit\<close> turns an ASCII literal of the source into
  such a string.
\<close>

type_synonym code_unit = "16 word"
type_synonym jsstring = "code_unit list"
type_synonym bytes = "8 word list"

definition code_unit :: "char \<Rightarrow> code_unit" where
  "code_unit c = of_nat (of_char c)"

definition lit :: "string \<Rightarrow> jsstring" where
  "lit s = map code_unit s"

text \<open>
  Numbers are IEEE doubles in the source. The program never computes with one: it tests
  truthiness and hands the number on. A finite number is kept as the rational it denotes
  (\<open>-0\<close> and \<open>0\<close> coincide, both are falsy).
\<close>

datatype jsnum = NaN | Infinity bool | Finite rat

datatype jsval =
    JUndefined
  | JNull
  | JBool bool
  | JNum jsnum
  | JStr jsstring
  | JArr "jsval list"
  | JObj "(jsstring \<times> jsval) list"

text \<open>A thrown error object, with its \<open>message\<close> property.\<close>

datatype js_error = JsError (message: jsstring)

text \<open>The outcome of an awaited promise: it rejects with an error or resolves to a value.\<close>

datatype 'a awaited = Rejects js_error | Resolves 'a

text \<open>ToBoolean, as used by \<open>!x\<close> and \<open>x || y\<close>.\<close>

fun truthy :: "jsval \<Rightarrow> bool" where
  "truthy JUndefined = False"
| "truthy JNull = False"
| "truthy (JBool b) = b"
| "truthy (JNum NaN) = False"
| "truthy (JNum (Infinity s)) = True"
| "truthy (JNum (Finite q)) = (q \<noteq> 0)"
| "truthy (JStr s) = (s \<noteq> [])"
| "truthy (JArr xs) = True"
| "truthy (JObj ps) = True"

text \<open>\<open>a || b\<close> on values.\<close>

definition js_or :: "jsval \<Rightarrow> jsval \<Rightarrow> jsval" where
  "js_or a b = (if truthy a then a else b)"

text \<open>
  Reading a property \<open>v.k\<close>. Reading from \<open>undefined\<close> or \<open>null\<close> throws a TypeError
  (the message is V8's); an object answers from its property table, and a key it does not
  hold reads as \<open>undefined\<close>. The keys the program reads (\<open>text\<close>, \<open>voice\<close>, \<open>speed\<close>,
  \<open>error\<close>, \<open>message\<close>, \<open>audioContent\<close>) are no built-in properties of strings,
  numbers, booleans or arrays, so those read as \<open>undefined\<close> too.
\<close>

definition cannot_read :: "string \<Rightarrow> jsstring \<Rightarrow> js_error" where
  "cannot_read what k =
     JsError (lit ''Cannot read properties of '' @ lit what @ lit '' (reading '' @ [39] @ k @ [39] @ lit '')'')"

fun get_prop :: "jsval \<Rightarrow> jsstring \<Rightarrow> js_error + jsval" where
  "get_prop JUndefined k = Inl (cannot_read ''undefined'' k)"
| "get_prop JNull k = Inl (cannot_read ''null'' k)"
| "get_prop (JObj ps) k = Inr (case map_of ps k of None \<Rightarrow> JUndefined | Some v \<Rightarrow> v)"
| "get_prop (JBool b) k = Inr JUndefined"
| "get_prop (JNum n) k = Inr JUndefined"
| "get_prop (JStr s) k = Inr JUndefined"
| "get_prop (JArr xs) k = Inr JUndefined"

text \<open>Optional chaining \<open>v?.k\<close>: \<open>undefined\<close> when \<open>v\<close> is \<open>undefined\<close> or \<open>null\<close>.\<close>

fun get_prop_opt :: "jsval \<Rightarrow> jsstring \<Rightarrow> jsval" where
  "get_prop_opt JUndefined k = JUndefined"
| "get_prop_opt JNull k = JUndefined"
| "get_prop_opt (JObj ps) k = (case map_of ps k of None \<Rightarrow> JUndefined | Some v \<Rightarrow> v)"
| "get_prop_opt (JBool b) k = JUndefined"
| "get_prop_opt (JNum n) k = JUndefined"
| "get_prop_opt (JStr s) k = JUndefined"
| "get_prop_opt (JArr xs) k = JUndefined"

subsection \<open>String operations of the standard library\<close>

text \<open>
  \<open>String.prototype.trim\<close> removes the WhiteSpace and LineTerminator code points of
  ECMAScript from both ends.
\<close>

definition is_white_space :: "code_unit \<Rightarrow> bool" where
  "is_white_space c \<longleftrightarrow>
     c \<in> set [0x0009, 0x000A, 0x000B, 0x000C, 0x000D, 0x0020, 0x00A0, 0x1680,
              0x2000, 0x2001, 0x2002, 0x2003, 0x2004, 0x2005, 0x2006, 0x2007,
              0x2008, 0x2009, 0x200A, 0x2028, 0x2029, 0x202F, 0x205F, 0x3000, 0xFEFF]"

definition trim :: "jsstring \<Rightarrow> jsstring" where
  "trim s = rev (dropWhile is_white_space (rev (dropWhile is_white_space s)))"

text \<open>\<open>s.split(c)\<close> for a one-character separator: never an empty list.\<close>

fun split :: "code_unit \<Rightarrow> jsstring \<Rightarrow> jsstring list" where
  "split c [] = [[]]"
| "split c (x # xs) =
     (if x = c then [] # split c xs
      else (case split c xs of [] \<Rightarrow> [[x]] | y # ys \<Rightarrow> (x # y) # ys))"

text \<open>\<open>xs.join(c)\<close> for a one-character separator.\<close>

fun join :: "code_unit \<Rightarrow> jsstring list \<Rightarrow> jsstring" where
  "join c [] = []"
| "join c [x] = x"
| "join c (x # y # ys) = x @ c # join c (y # ys)"

section \<open>HTTP as both programs see it\<close>

text \<open>
  What \<open>fetch\<close> is called with: the URL, the method and the value handed to
  \<open>JSON.stringify\<close> for the body (both calls of the source send the header
  \<open>Content-Type: application/json\<close>).
\<close>

record fetch_request =
  fr_url :: jsstring
  fr_method :: jsstring
  fr_body :: jsval

text \<open>
  What \<open>fetch\<close> resolves to: the status, and what \<open>response.json()\<close> and
  \<open>response.blob()\<close> would settle to when awaited.
\<close>

record http_response =
  resp_status :: nat
  resp_json :: "jsval awaited"
  resp_blob :: "bytes awaited"

definition resp_ok :: "http_response \<Rightarrow> bool" where
  "resp_ok r \<longleftrightarrow> 200 \<le> resp_status r \<and> resp_status r \<le> 299"

type_synonym network = "fetch_request \<Rightarrow> http_response awaited"

section \<open>The browser script\<close>

text \<open>
  The page state the script reads and writes: the module variable \<open>currentAudioBlob\<close>
  (\<open>None\<close> is \<open>null\<close>) and the DOM elements it touches. A class list is modelled by
  whether it holds \<open>show\<close>; the player's source by the blob its object URL names.
\<close>

record client =
  currentAudioBlob :: "bytes option"
  errorText :: jsstring
  loadingShown :: bool
  errorShown :: bool
  successShown :: bool
  previewShown :: bool
  generateDisabled :: bool
  playerSrc :: "bytes option"

record form =
  scriptInput :: jsstring
  voiceSelect :: jsstring
  speedRange :: jsstring

text \<open>
  Library functions the script calls and this development leaves open: \<open>parseFloat\<close>,
  and ToString on a value that is not a string (numbers, objects).
\<close>

record browser =
  parseFloat :: "jsstring \<Rightarrow> jsnum"
  to_string_other :: "jsval \<Rightarrow> jsstring"

definition to_string :: "browser \<Rightarrow> jsval \<Rightarrow> jsstring" where
  "to_string br v = (case v of JStr s \<Rightarrow> s | _ \<Rightarrow> to_string_other br v)"

definition showLoading :: "client \<Rightarrow> client" where
  "showLoading c = c\<lparr>loadingShown := True, errorShown := False, successShown := False,
                     previewShown := False, generateDisabled := True\<rparr>"

definition hideLoading :: "client \<Rightarrow> client" where
  "hideLoading c = c\<lparr>loadingShown := False, generateDisabled := False\<rparr>"

definition showError :: "jsstring \<Rightarrow> client \<Rightarrow> client" where
  "showError msg c = hideLoading (c\<lparr>errorText := msg, errorShown := True\<rparr>)"

definition showSuccess :: "client \<Rightarrow> client" where
  "showSuccess c = hideLoading (c\<lparr>successShown := True, previewShown := True\<rparr>)"

text \<open>The two guards at the head of \<open>generateAudio\<close>, each an early return.\<close>

datatype validation_error = EmptyInput | TooShort

definition validate :: "jsstring \<Rightarrow> validation_error + jsstring" where
  "validate raw =
     (let text = trim raw in
      if \<not> truthy (JStr text) then Inl EmptyInput
      else if length text < 10 then Inl TooShort
      else Inr text)"

fun validation_message :: "validation_error \<Rightarrow> jsstring" where
  "validation_message EmptyInput = lit ''Please enter some text for your script''"
| "validation_message TooShort = lit ''Script is too short. Please add more text.''"

definition relay_request :: "browser \<Rightarrow> jsstring \<Rightarrow> form \<Rightarrow> fetch_request" where
  "relay_request br text f =
     \<lparr>fr_url = lit ''/api/generate-speech'', fr_method = lit ''POST'',
      fr_body = JObj [(lit ''text'', JStr text),
                      (lit ''voice'', JStr (voiceSelect f)),
                      (lit ''speed'', JNum (parseFloat br (speedRange f)))]\<rparr>"

text \<open>
  The body of the \<open>try\<close> block up to the point where the blob is in hand: \<open>Inl\<close> is the
  error that reaches the \<open>catch\<close>.
\<close>

definition submit :: "browser \<Rightarrow> network \<Rightarrow> jsstring \<Rightarrow> form \<Rightarrow> js_error + bytes" where
  "submit br net text f =
     (case net (relay_request br text f) of
        Rejects e \<Rightarrow> Inl e
      | Resolves response \<Rightarrow>
          if \<not> resp_ok response then
            (case resp_json response of
               Rejects e \<Rightarrow> Inl e
             | Resolves errorData \<Rightarrow>
                 (case get_prop errorData (lit ''error'') of
                    Inl e \<Rightarrow> Inl e
                  | Inr err \<Rightarrow>
                      Inl (JsError (to_string br
                             (js_or err (JStr (lit ''Failed to generate audio'')))))))
          else
            (case resp_blob response of
               Rejects e \<Rightarrow> Inl e
             | Resolves audioBlob \<Rightarrow> Inr audioBlob))"

text \<open>\<open>generateAudio\<close>: the new page state and the requests it sent.\<close>

definition generateAudio :: "browser \<Rightarrow> network \<Rightarrow> form \<Rightarrow> client \<Rightarrow> client \<times> fetch_request list" where
  "generateAudio br net f c =
     (case validate (scriptInput f) of
        Inl v \<Rightarrow> (showError (validation_message v) c, [])
      | Inr text \<Rightarrow>
          (let c1 = showLoading c in
           case submit br net text f of
             Inl error \<Rightarrow> (showError (message error) c1, [relay_request br text f])
           | Inr audioBlob \<Rightarrow>
               (showSuccess (c1\<lparr>currentAudioBlob := Some audioBlob, playerSrc := Some audioBlob\<rparr>),
                [relay_request br text f])))"

text \<open>
  \<open>downloadAudio\<close>: either the error is shown, or a file is saved under a name made from
  the clock reading \<open>now\<close>.
\<close>

datatype download = NothingSaved | Saved bytes jsstring

definition downloadAudio :: "browser \<Rightarrow> nat \<Rightarrow> client \<Rightarrow> client \<times> download" where
  "downloadAudio br now c =
     (case currentAudioBlob c of
        None \<Rightarrow> (showError (lit ''No audio to download. Please generate audio first.'') c, NothingSaved)
      | Some b \<Rightarrow>
          (c, Saved b (lit ''voiceover-'' @ to_string br (JNum (Finite (of_nat now))) @ lit ''.mp3'')))"

text \<open>The page as loaded: no blob yet, nothing shown.\<close>

definition initial_client :: client where
  "initial_client = \<lparr>currentAudioBlob = None, errorText = [], loadingShown = False,
     errorShown = False, successShown = False, previewShown = False,
     generateDisabled = False, playerSrc = None\<rparr>"

text \<open>A page session: generation attempts one after the other.\<close>

fun session :: "browser \<Rightarrow> (network \<times> form) list \<Rightarrow> client \<Rightarrow> client" where
  "session br [] c = c"
| "session br ((net, f) # rest) c = session br rest (fst (generateAudio br net f c))"

text \<open>The blob an attempt obtains, if it succeeds.\<close>

definition attempt_blob :: "browser \<Rightarrow> network \<times> form \<Rightarrow> bytes option" where
  "attempt_blob br a =
     (case validate (scriptInput (snd a)) of
        Inl v \<Rightarrow> None
      | Inr text \<Rightarrow> (case submit br (fst a) text (snd a) of Inl e \<Rightarrow> None | Inr b \<Rightarrow> Some b))"

section \<open>Base64\<close>

text \<open>
  \<open>Buffer.from(s, 'base64')\<close> of Node.js, on a string. The decoder reads one byte per code
  unit, the low byte of each. Bytes outside the alphabets (standard and URL-safe) are
  skipped, decoding stops at the first byte \<open>=\<close>, every four sextets give three bytes, and
  a tail of two or three sextets gives one or two bytes. Sextets are kept in bytes, as the
  decoder does.
\<close>

definition low_byte :: "code_unit \<Rightarrow> 8 word" where
  "low_byte c = ucast c"

definition unbase64 :: "8 word \<Rightarrow> 8 word option" where
  "unbase64 c =
     (let n = unat c in
      if 65 \<le> n \<and> n \<le> 90 then Some (of_nat (n - 65))
      else if 97 \<le> n \<and> n \<le> 122 then Some (of_nat (n - 71))
      else if 48 \<le> n \<and> n \<le> 57 then Some (of_nat (n + 4))
      else if n = 43 \<or> n = 45 then Some 62
      else if n = 47 \<or> n = 95 then Some 63
      else None)"

definition equals_sign :: code_unit where
  "equals_sign = code_unit CHR ''=''"

definition sextets :: "jsstring \<Rightarrow> 8 word list" where
  "sextets s = List.map_filter unbase64 (takeWhile (\<lambda>c. c \<noteq> 0x3D) (map low_byte s))"

definition byte1 :: "8 word \<Rightarrow> 8 word \<Rightarrow> 8 word" where
  "byte1 hi lo = push_bit 2 (hi AND 0x3F) OR drop_bit 4 (lo AND 0x30)"

definition byte2 :: "8 word \<Rightarrow> 8 word \<Rightarrow> 8 word" where
  "byte2 hi lo = push_bit 4 (hi AND 0x0F) OR drop_bit 2 (lo AND 0x3C)"

definition byte3 :: "8 word \<Rightarrow> 8 word \<Rightarrow> 8 word" where
  "byte3 hi lo = push_bit 6 (hi AND 0x03) OR (lo AND 0x3F)"

fun from_sextets :: "8 word list \<Rightarrow> bytes" where
  "from_sextets (a # b # c # d # rest) = byte1 a b # byte2 b c # byte3 c d # from_sextets rest"
| "from_sextets [a, b, c] = [byte1 a b, byte2 b c]"
| "from_sextets [a, b] = [byte1 a b]"
| "from_sextets [a] = []"
| "from_sextets [] = []"

definition base64_decode :: "jsstring \<Rightarrow> bytes" where
  "base64_decode s = from_sextets (sextets s)"

text \<open>
  The encoding the provider applies to the audio (RFC 4648, standard alphabet, padded with
  \<open>=\<close>): the other half of the round trip.
\<close>

definition b64char :: "8 word \<Rightarrow> code_unit" where
  "b64char v =
     (let n = unat v in
      of_nat (if n < 26 then n + 65
              else if n < 52 then n + 71
              else if n < 62 then n - 4
              else if n = 62 then 43
              else 47))"

definition enc1 :: "8 word \<Rightarrow> 8 word" where
  "enc1 x = drop_bit 2 x"

definition enc2 :: "8 word \<Rightarrow> 8 word \<Rightarrow> 8 word" where
  "enc2 x y = push_bit 4 (x AND 0x03) OR drop_bit 4 y"

definition enc3 :: "8 word \<Rightarrow> 8 word \<Rightarrow> 8 word" where
  "enc3 y z = push_bit 2 (y AND 0x0F) OR drop_bit 6 z"

definition enc4 :: "8 word \<Rightarrow> 8 word" where
  "enc4 z = z AND 0x3F"

fun base64_encode :: "bytes \<Rightarrow> jsstring" where
  "base64_encode (x # y # z # rest) =
     b64char (enc1 x) # b64char (enc2 x y) # b64char (enc3 y z) # b64char (enc4 z)
       # base64_encode rest"
| "base64_encode [x, y] =
     [b64char (enc1 x), b64char (enc2 x y), b64char (enc3 y 0), equals_sign]"
| "base64_encode [x] = [b64char (enc1 x), b64char (enc2 x 0), equals_sign, equals_sign]"
| "base64_encode [] = []"

section \<open>The relay\<close>

record request =
  req_method :: jsstring
  req_body :: jsval

text \<open>
  The response object \<open>res\<close>: the status code, the headers set with \<open>setHeader\<close>, and what
  was sent, if anything yet (\<open>res.end()\<close>, \<open>res.json(v)\<close> or \<open>res.send(buffer)\<close>). Headers
  that the platform's \<open>json\<close> and \<open>send\<close> add on their own are not recorded, and neither are
  the \<open>console.error\<close> lines.
\<close>

datatype res_body = Ended | Json jsval | Raw bytes

record response =
  statusCode :: nat
  headers :: "(jsstring \<times> jsval) list"
  sent :: "res_body option"

definition new_response :: response where
  "new_response = \<lparr>statusCode = 200, headers = [], sent = None\<rparr>"

definition setHeader :: "string \<Rightarrow> jsval \<Rightarrow> response \<Rightarrow> response" where
  "setHeader name v res = res\<lparr>headers := AList.update (lit name) v (headers res)\<rparr>"

definition status :: "nat \<Rightarrow> response \<Rightarrow> response" where
  "status n res = res\<lparr>statusCode := n\<rparr>"

definition json :: "jsval \<Rightarrow> response \<Rightarrow> response" where
  "json v res = res\<lparr>sent := Some (Json v)\<rparr>"

definition send :: "bytes \<Rightarrow> response \<Rightarrow> response" where
  "send b res = res\<lparr>sent := Some (Raw b)\<rparr>"

definition end_response :: "response \<Rightarrow> response" where
  "end_response res = res\<lparr>sent := Some Ended\<rparr>"

definition error_body :: "jsval \<Rightarrow> jsval" where
  "error_body m = JObj [(lit ''error'', m)]"

text \<open>The process environment, and the one library call left open: \<open>Buffer.from\<close> on a
  value that is not a string.\<close>

record env =
  GOOGLE_CLOUD_API_KEY :: "jsstring option"

record node =
  buffer_from_other :: "jsval \<Rightarrow> js_error + bytes"

definition Buffer_from :: "node \<Rightarrow> jsval \<Rightarrow> js_error + bytes" where
  "Buffer_from nd v = (case v of JStr s \<Rightarrow> Inr (base64_decode s) | _ \<Rightarrow> buffer_from_other nd v)"

text \<open>
  \<open>const { text, voice, speed } = req.body\<close>: destructuring \<open>undefined\<close> or \<open>null\<close> throws
  (V8's message).
\<close>

definition cannot_destructure :: "string \<Rightarrow> js_error" where
  "cannot_destructure what =
     JsError (lit ''Cannot destructure property '' @ [39] @ lit ''text'' @ [39] @ lit '' of ''
              @ [39] @ lit ''req.body'' @ [39] @ lit '' as it is '' @ lit what @ lit ''.'')"

fun destructure :: "jsval \<Rightarrow> js_error + jsval \<times> jsval \<times> jsval" where
  "destructure JUndefined = Inl (cannot_destructure ''undefined'')"
| "destructure JNull = Inl (cannot_destructure ''null'')"
| "destructure body =
     Inr (get_prop_opt body (lit ''text''), get_prop_opt body (lit ''voice''),
          get_prop_opt body (lit ''speed''))"

definition hyphen :: code_unit where
  "hyphen = code_unit CHR ''-''"

text \<open>
  \<open>voice.split('-').slice(0, 2).join('-')\<close>. A voice that is no string has no \<open>split\<close>
  method, and the call throws.
\<close>

definition languageCode :: "jsval \<Rightarrow> js_error + jsstring" where
  "languageCode voice =
     (case voice of
        JStr v \<Rightarrow> Inr (join hyphen (take 2 (split hyphen v)))
      | _ \<Rightarrow> Inl (JsError (lit ''voice.split is not a function'')))"

definition googleRequestBody :: "jsval \<Rightarrow> jsval \<Rightarrow> jsval \<Rightarrow> js_error + jsval" where
  "googleRequestBody text voice speed =
     (case languageCode voice of
        Inl e \<Rightarrow> Inl e
      | Inr lc \<Rightarrow>
          Inr (JObj
            [(lit ''input'', JObj [(lit ''text'', text)]),
             (lit ''voice'', JObj [(lit ''languageCode'', JStr lc), (lit ''name'', voice)]),
             (lit ''audioConfig'', JObj
                [(lit ''audioEncoding'', JStr (lit ''MP3'')),
                 (lit ''speakingRate'', js_or speed (JNum (Finite 1))),
                 (lit ''pitch'', JNum (Finite 0)),
                 (lit ''volumeGainDb'', JNum (Finite 0))])]))"

definition upstream_request :: "jsstring \<Rightarrow> jsval \<Rightarrow> fetch_request" where
  "upstream_request apiKey body =
     \<lparr>fr_url = lit ''https://texttospeech.googleapis.com/v1/text:synthesize?key='' @ apiKey,
      fr_method = lit ''POST'', fr_body = body\<rparr>"

text \<open>
  Steps 1 to 7 of \<open>handler\<close>: everything before the \<open>try\<close>. Either the handler is done
  there (it responded, or threw with nothing to catch it), or the key and the request body
  for the provider are ready.
\<close>

datatype outcome = Responded response | Unhandled js_error

datatype prepared = Done outcome | Ready jsstring jsval

definition cors :: "response \<Rightarrow> response" where
  "cors res =
     setHeader ''Access-Control-Allow-Headers'' (JStr (lit ''Content-Type''))
       (setHeader ''Access-Control-Allow-Methods'' (JStr (lit ''POST, OPTIONS''))
          (setHeader ''Access-Control-Allow-Origin'' (JStr (lit ''*'')) res))"

definition prepare :: "env \<Rightarrow> request \<Rightarrow> response \<Rightarrow> prepared" where
  "prepare ev req res =
     (if req_method req = lit ''OPTIONS'' then Done (Responded (end_response (status 200 res)))
      else if req_method req \<noteq> lit ''POST'' then
        Done (Responded (json (error_body (JStr (lit ''Method not allowed. Use POST.'')))
                           (status 405 res)))
      else
        (case destructure (req_body req) of
           Inl e \<Rightarrow> Done (Unhandled e)
         | Inr (text, voice, speed) \<Rightarrow>
             if \<not> truthy text \<or> \<not> truthy voice then
               Done (Responded (json (error_body (JStr (lit ''Missing required fields: text and voice'')))
                                  (status 400 res)))
             else
               (case GOOGLE_CLOUD_API_KEY ev of
                  None \<Rightarrow>
                    Done (Responded (json (error_body (JStr (lit ''Server configuration error: API key not found'')))
                                       (status 500 res)))
                | Some apiKey \<Rightarrow>
                    if \<not> truthy (JStr apiKey) then
                      Done (Responded (json (error_body (JStr (lit ''Server configuration error: API key not found'')))
                                         (status 500 res)))
                    else
                      (case googleRequestBody text voice speed of
                         Inl e \<Rightarrow> Done (Unhandled e)
                       | Inr body \<Rightarrow> Ready apiKey body))))"

text \<open>
  The \<open>try\<close> block: \<open>Inl\<close> is an error thrown inside it, with \<open>res\<close> as it stands
  at that point. In \<open>res.status(response.status).json({ ... })\<close> the call of \<open>status\<close>
  runs before the argument of \<open>json\<close> is evaluated, so an error thrown by that argument
  finds the status already set.
\<close>

definition call_upstream :: "node \<Rightarrow> network \<Rightarrow> jsstring \<Rightarrow> jsval \<Rightarrow> response
    \<Rightarrow> js_error \<times> response + response" where
  "call_upstream nd net apiKey body res =
     (case net (upstream_request apiKey body) of
        Rejects e \<Rightarrow> Inl (e, res)
      | Resolves response \<Rightarrow>
          if \<not> resp_ok response then
            (case resp_json response of
               Rejects e \<Rightarrow> Inl (e, res)
             | Resolves errorData \<Rightarrow>
                 (let res1 = status (resp_status response) res in
                  case get_prop errorData (lit ''error'') of
                    Inl e \<Rightarrow> Inl (e, res1)
                  | Inr err \<Rightarrow>
                      Inr (json (error_body
                                   (js_or (get_prop_opt err (lit ''message''))
                                          (JStr (lit ''Failed to generate speech''))))
                             res1)))
          else
            (case resp_json response of
               Rejects e \<Rightarrow> Inl (e, res)
             | Resolves data \<Rightarrow>
                 (case get_prop data (lit ''audioContent'') of
                    Inl e \<Rightarrow> Inl (e, res)
                  | Inr audioContent \<Rightarrow>
                      if \<not> truthy audioContent then
                        Inr (json (error_body (JStr (lit ''No audio content received from Google'')))
                               (status 500 res))
                      else
                        (case Buffer_from nd audioContent of
                           Inl e \<Rightarrow> Inl (e, res)
                         | Inr audioBuffer \<Rightarrow>
                             Inr (send audioBuffer
                                    (status 200
                                       (setHeader ''Content-Length''
                                          (JNum (Finite (of_nat (length audioBuffer))))
                                          (setHeader ''Content-Type'' (JStr (lit ''audio/mpeg''))
                                             res))))))))"

text \<open>\<open>handler\<close>: how the invocation ends, and the requests sent to the provider.\<close>

definition handler :: "node \<Rightarrow> env \<Rightarrow> network \<Rightarrow> request \<Rightarrow> outcome \<times> fetch_request list" where
  "handler nd ev net req =
     (let res = cors new_response in
      case prepare ev req res of
        Done out \<Rightarrow> (out, [])
      | Ready apiKey body \<Rightarrow>
          (case call_upstream nd net apiKey body res of
             Inr res' \<Rightarrow> (Responded res', [upstream_request apiKey body])
           | Inl (error, res1) \<Rightarrow>
               (Responded (json (error_body (JStr (lit ''Internal server error: '' @ message error)))
                             (status 500 res1)),
                [upstream_request apiKey body])))"

section \<open>Concrete invocations\<close>

text \<open>The inputs of the scenarios, used to run the definitions on concrete data.\<close>

definition scenario_request :: request where
  "scenario_request =
     \<lparr>req_method = lit ''POST'',
      req_body = JObj [(lit ''text'', JStr (lit ''Hello world, this is a test.'')),
                       (lit ''voice'', JStr (lit ''en-US-Neural2-A'')),
                       (lit ''speed'', JNum (Finite 1))]\<rparr>"

definition scenario_env :: env where
  "scenario_env = \<lparr>GOOGLE_CLOUD_API_KEY = Some (lit ''secret'')\<rparr>"

definition empty_env :: env where
  "empty_env = \<lparr>GOOGLE_CLOUD_API_KEY = None\<rparr>"

definition strict_node :: node where
  "strict_node =
     \<lparr>buffer_from_other = (\<lambda>v. Inl (JsError (lit ''The first argument must be of type string'')))\<rparr>"

definition replies :: "http_response \<Rightarrow> network" where
  "replies r q = Resolves r"

definition unreachable :: network where
  "unreachable q = Rejects (JsError (lit ''fetch failed''))"

definition json_reply :: "nat \<Rightarrow> jsval \<Rightarrow> http_response" where
  "json_reply n v = \<lparr>resp_status = n, resp_json = Resolves v, resp_blob = Resolves []\<rparr>"

definition audio_reply :: "bytes \<Rightarrow> http_response" where
  "audio_reply b =
     \<lparr>resp_status = 200, resp_json = Rejects (JsError (lit ''Unexpected token'')),
      resp_blob = Resolves b\<rparr>"

definition scenario_payload :: jsval where
  "scenario_payload = JObj
     [(lit ''input'', JObj [(lit ''text'', JStr (lit ''Hello world, this is a test.''))]),
      (lit ''voice'', JObj [(lit ''languageCode'', JStr (lit ''en-US'')),
                            (lit ''name'', JStr (lit ''en-US-Neural2-A''))]),
      (lit ''audioConfig'', JObj
         [(lit ''audioEncoding'', JStr (lit ''MP3'')),
          (lit ''speakingRate'', JNum (Finite 1)),
          (lit ''pitch'', JNum (Finite 0)),
          (lit ''volumeGainDb'', JNum (Finite 0))])]"

definition plain_browser :: browser where
  "plain_browser = \<lparr>parseFloat = (\<lambda>s. Finite 1), to_string_other = (\<lambda>v. [])\<rparr>"

definition filled_form :: "string \<Rightarrow> form" where
  "filled_form s =
     \<lparr>scriptInput = lit s, voiceSelect = lit ''en-US-Neural2-A'', speedRange = lit ''1''\<rparr>"

section \<open>Basic facts\<close>

lemma unat_code_unit: "unat (code_unit c) = of_char c"
proof -
  have "(of_char c :: nat) mod 256 < 256" by (rule mod_less_divisor) simp
  hence "(of_char c :: nat) < 256" by (simp only: of_char_mod_256)
  hence "(of_char c :: nat) < 65536" by linarith
  hence "(of_char c :: nat) mod 65536 = of_char c" by (rule mod_less)
  thus ?thesis by (simp add: code_unit_def unat_of_nat)
qed

lemma code_unit_eq_iff [simp]: "code_unit c = code_unit d \<longleftrightarrow> c = d"
  by (metis unat_code_unit of_char_eq_iff)

lemma lit_simps: "lit [] = []" "lit (c # cs) = code_unit c # lit cs"
  by (simp_all add: lit_def)

lemma lit_Nil_iff [simp]: "lit s = [] \<longleftrightarrow> s = []"
  by (simp add: lit_def)

lemma lit_append [simp]: "lit a @ lit b = lit (a @ b)"
  by (simp add: lit_def)

lemma lit_eq_iff [simp]: "lit a = lit b \<longleftrightarrow> a = b"
  unfolding lit_def by (simp add: inj_on_def)

lemma get_prop_nonnull:
  "v \<noteq> JNull \<Longrightarrow> v \<noteq> JUndefined \<Longrightarrow> get_prop v k = Inr (get_prop_opt v k)"
  by (cases v) simp_all

subsection \<open>The response object\<close>

lemma status_simps [simp]:
  "statusCode (status n res) = n"
  "headers (status n res) = headers res"
  "sent (status n res) = sent res"
  by (simp_all add: status_def)

lemma json_simps [simp]:
  "statusCode (json v res) = statusCode res"
  "headers (json v res) = headers res"
  "sent (json v res) = Some (Json v)"
  by (simp_all add: json_def)

lemma send_simps [simp]:
  "statusCode (send v res) = statusCode res"
  "headers (send v res) = headers res"
  "sent (send v res) = Some (Raw v)"
  by (simp_all add: send_def)

lemma setHeader_simps [simp]:
  "statusCode (setHeader k v res) = statusCode res"
  "map_of (headers (setHeader k v res)) = (map_of (headers res))(lit k \<mapsto> v)"
  "sent (setHeader k v res) = sent res"
  by (simp_all add: setHeader_def update_conv')

subsection \<open>The two halves of the handler\<close>

lemma handler_Ready:
  "prepare ev req (cors new_response) = Ready k b \<Longrightarrow>
   handler nd ev net req =
     (case call_upstream nd net k b (cors new_response) of
        Inr res' \<Rightarrow> Responded res'
      | Inl (e, res1) \<Rightarrow>
          Responded (json (error_body (JStr (lit ''Internal server error: '' @ message e)))
                       (status 500 res1)),
      [upstream_request k b])"
  by (simp add: handler_def Let_def split: sum.splits prod.splits)

lemma handler_Done:
  "prepare ev req (cors new_response) = Done out \<Longrightarrow> handler nd ev net req = (out, [])"
  by (simp add: handler_def Let_def)

lemma destructure_present:
  assumes "map_of ps (lit ''text'') = Some text" and "map_of ps (lit ''voice'') = Some voice"
  shows "destructure (JObj ps) = Inr (text, voice, get_prop_opt (JObj ps) (lit ''speed''))"
  using assms by simp

lemma prepare_missing:
  assumes "req_method req = lit ''POST''"
    and "destructure (req_body req) = Inr (text, voice, speed)"
    and "\<not> truthy text \<or> \<not> truthy voice"
  shows "prepare ev req res =
    Done (Responded (json (error_body (JStr (lit ''Missing required fields: text and voice'')))
                       (status 400 res)))"
  using assms by (auto simp add: prepare_def)

lemma prepare_no_key:
  assumes "req_method req = lit ''POST''"
    and "destructure (req_body req) = Inr (text, voice, speed)"
    and "truthy text" and "truthy voice" and "GOOGLE_CLOUD_API_KEY ev = None"
  shows "prepare ev req res =
    Done (Responded (json (error_body (JStr (lit ''Server configuration error: API key not found'')))
                       (status 500 res)))"
  using assms by (auto simp add: prepare_def)

lemma prepare_ready:
  assumes "req_method req = lit ''POST''"
    and "destructure (req_body req) = Inr (text, JStr v, speed)"
    and "truthy text" and "v \<noteq> []" and "GOOGLE_CLOUD_API_KEY ev = Some k" and "k \<noteq> []"
  shows "prepare ev req res = Ready k (JObj
            [(lit ''input'', JObj [(lit ''text'', text)]),
             (lit ''voice'', JObj [(lit ''languageCode'', JStr (join hyphen (take 2 (split hyphen v)))),
                                   (lit ''name'', JStr v)]),
             (lit ''audioConfig'', JObj
                [(lit ''audioEncoding'', JStr (lit ''MP3'')),
                 (lit ''speakingRate'', if truthy speed then speed else JNum (Finite 1)),
                 (lit ''pitch'', JNum (Finite 0)),
                 (lit ''volumeGainDb'', JNum (Finite 0))])])"
  using assms by (simp add: prepare_def googleRequestBody_def languageCode_def js_or_def)

lemma scenario_prepare:
  "prepare scenario_env scenario_request res = Ready (lit ''secret'') scenario_payload"
  by (simp add: prepare_def scenario_env_def scenario_request_def scenario_payload_def
        googleRequestBody_def languageCode_def js_or_def hyphen_def lit_simps)

lemma call_upstream_audio:
  assumes "net (upstream_request k b) = Resolves r" and "resp_ok r"
    and "resp_json r = Resolves (JObj ps)"
    and "map_of ps (lit ''audioContent'') = Some (JStr s)" and "s \<noteq> []"
  shows "call_upstream nd net k b res =
    Inr (send (base64_decode s)
           (status 200
              (setHeader ''Content-Length'' (JNum (Finite (of_nat (length (base64_decode s)))))
                 (setHeader ''Content-Type'' (JStr (lit ''audio/mpeg'')) res))))"
  using assms by (simp add: call_upstream_def Buffer_from_def)

text \<open>
  Object bodies without one of the two fields are turned away by the guard; so is every
  body other than \<open>undefined\<close> and \<open>null\<close> whose \<open>text\<close> or \<open>voice\<close> is falsy.
\<close>

lemma missing_fields_rejected:
  assumes "req_method req = lit ''POST''"
    and "req_body req = JObj ps"
    and "map_of ps (lit ''text'') = None \<or> map_of ps (lit ''voice'') = None"
  shows "\<exists>res. handler nd ev net req = (Responded res, []) \<and> statusCode res = 400 \<and>
           sent res = Some (Json (JObj [(lit ''error'',
                        JStr (lit ''Missing required fields: text and voice''))]))"
proof -
  have "\<not> truthy (get_prop_opt (JObj ps) (lit ''text'')) \<or>
        \<not> truthy (get_prop_opt (JObj ps) (lit ''voice''))"
    using assms(3) by auto
  then have "prepare ev req (cors new_response) =
    Done (Responded (json (error_body (JStr (lit ''Missing required fields: text and voice'')))
                       (status 400 (cors new_response))))"
    using assms(1,2) by (intro prepare_missing) (simp_all del: get_prop_opt.simps)
  then show ?thesis by (simp add: handler_Done error_body_def)
qed

text \<open>A voice that is present but no string makes the handler throw before the \<open>try\<close>.\<close>

lemma non_string_voice_unhandled:
  "handler strict_node scenario_env unreachable
     \<lparr>req_method = lit ''POST'',
      req_body = JObj [(lit ''text'', JStr (lit ''Hello world, this is a test.'')),
                       (lit ''voice'', JNum (Finite 123))]\<rparr>
   = (Unhandled (JsError (lit ''voice.split is not a function'')), [])"
  by (simp add: handler_def prepare_def scenario_env_def googleRequestBody_def languageCode_def)

subsection \<open>Base64: decoding undoes encoding\<close>

lemma unat_of_nat16: "m < 65536 \<Longrightarrow> unat (of_nat m :: 16 word) = m"
  by (simp add: unat_of_nat)

lemma b64char_unat:
  assumes "v \<le> 63"
  shows "unat (b64char v) =
     (if unat v < 26 then unat v + 65 else if unat v < 52 then unat v + 71
      else if unat v < 62 then unat v - 4 else if unat v = 62 then 43 else 47)"
proof -
  have n: "unat v < 64" using assms by (simp add: word_le_nat_alt)
  show ?thesis unfolding b64char_def Let_def
    by (rule trans [OF unat_of_nat16]) (use n in auto)
qed

lemma unat_low_byte: "unat (low_byte c) = unat c mod 256"
  by (simp add: low_byte_def unsigned_ucast_eq take_bit_eq_mod)

lemma low_byte_b64char:
  assumes "v \<le> 63"
  shows "unat (low_byte (b64char v)) = unat (b64char v)"
proof -
  have n: "unat v < 64" using assms by (simp add: word_le_nat_alt)
  have "unat (b64char v) < 256"
    unfolding b64char_unat [OF assms] using n by auto
  then show ?thesis by (simp add: unat_low_byte)
qed

lemma unbase64_b64char:
  assumes "v \<le> 63"
  shows "unbase64 (low_byte (b64char v)) = Some v"
proof -
  define n where "n = unat v"
  have n: "n < 64" using assms by (simp add: word_le_nat_alt n_def)
  have v: "v = of_nat n" by (simp add: n_def)
  define m where "m = unat (low_byte (b64char v))"
  have m: "m = (if n < 26 then n + 65 else if n < 52 then n + 71
      else if n < 62 then n - 4 else if n = 62 then 43 else 47)"
    unfolding m_def n_def low_byte_b64char [OF assms] by (rule b64char_unat [OF assms])
  have u: "unbase64 (low_byte (b64char v)) =
      (if 65 \<le> m \<and> m \<le> 90 then Some (of_nat (m - 65))
      else if 97 \<le> m \<and> m \<le> 122 then Some (of_nat (m - 71))
      else if 48 \<le> m \<and> m \<le> 57 then Some (of_nat (m + 4))
      else if m = 43 \<or> m = 45 then Some 62
      else if m = 47 \<or> m = 95 then Some 63
      else None)"
    by (simp add: unbase64_def m_def Let_def)
  consider "n < 26" | "26 \<le> n" "n < 52" | "52 \<le> n" "n < 62" | "n = 62" | "n = 63"
    using n by linarith
  then show ?thesis
  proof cases
    case 1
    then have "m = n + 65" by (simp add: m)
    then show ?thesis unfolding u using 1 by (simp add: v)
  next
    case 2
    then have "m = n + 71" by (simp add: m)
    then show ?thesis unfolding u using 2 by (simp add: v)
  next
    case 3
    then have "48 \<le> m" "m \<le> 57" "m + 4 = n" by (simp_all add: m)
    then show ?thesis unfolding u by (simp add: v)
  next
    case 4
    then have "m = 43" by (simp add: m)
    then show ?thesis unfolding u using 4 by (simp add: v)
  next
    case 5
    then have "m = 47" by (simp add: m)
    then show ?thesis unfolding u using 5 by (simp add: v)
  qed
qed

lemma b64char_not_equals:
  assumes "v \<le> 63"
  shows "low_byte (b64char v) \<noteq> 0x3D"
proof -
  have n: "unat v < 64" using assms by (simp add: word_le_nat_alt)
  have "unat (low_byte (b64char v)) \<noteq> 61"
    unfolding low_byte_b64char [OF assms] b64char_unat [OF assms] using n by auto
  moreover have "unat (0x3D :: 8 word) = 61" by simp
  ultimately show ?thesis by metis
qed

lemma low_byte_equals_sign: "low_byte equals_sign = 0x3D"
  by (simp add: low_byte_def equals_sign_def code_unit_def)

lemma masks:
  "(0x03 :: 8 word) = mask 2" "(0x0F :: 8 word) = mask 4" "(0x3F :: 8 word) = mask 6"
  "(0x30 :: 8 word) = push_bit 4 (mask 2)" "(0x3C :: 8 word) = push_bit 2 (mask 4)"
  by (simp_all add: mask_eq_exp_minus_1)

lemma byte_eqI:
  fixes a b :: "8 word"
  assumes "bit a 0 = bit b 0" "bit a 1 = bit b 1" "bit a 2 = bit b 2" "bit a 3 = bit b 3"
    "bit a 4 = bit b 4" "bit a 5 = bit b 5" "bit a 6 = bit b 6" "bit a 7 = bit b 7"
  shows "a = b"
proof (rule bit_word_eqI)
  fix n assume "n < LENGTH(8)"
  then have "n \<in> {0, 1, 2, 3, 4, 5, 6, 7}"
    by simp arith
  then show "bit a n = bit b n" using assms by auto
qed

lemma le63: "take_bit 6 w = w \<Longrightarrow> (w :: 8 word) \<le> 63"
  by (metis masks(3) take_bit_eq_mask word_and_le1)

lemma enc1_le: "enc1 x \<le> 63"
  by (rule le63, rule byte_eqI) (auto simp add: enc1_def masks bit_simps dest: bit_imp_le_length)

lemma enc2_le: "enc2 x y \<le> 63"
  by (rule le63, rule byte_eqI) (auto simp add: enc2_def masks bit_simps dest: bit_imp_le_length)

lemma enc3_le: "enc3 x y \<le> 63"
  by (rule le63, rule byte_eqI) (auto simp add: enc3_def masks bit_simps dest: bit_imp_le_length)

lemma enc4_le: "enc4 x \<le> 63"
  by (rule le63, rule byte_eqI) (simp_all add: enc4_def masks bit_simps)

lemma dec_enc1: "byte1 (enc1 x) (enc2 x y) = x"
  by (rule byte_eqI) (simp_all add: byte1_def enc1_def enc2_def masks bit_simps)

lemma dec_enc2: "byte2 (enc2 x y) (enc3 y z) = y"
  by (rule byte_eqI) (simp_all add: byte2_def enc2_def enc3_def masks bit_simps)

lemma dec_enc3: "byte3 (enc3 y z) (enc4 z) = z"
  by (rule byte_eqI) (simp_all add: byte3_def enc3_def enc4_def masks bit_simps)

lemma sextets_legal: "v \<le> 63 \<Longrightarrow> sextets (b64char v # s) = v # sextets s"
  by (simp add: sextets_def b64char_not_equals unbase64_b64char)

lemma sextets_equals: "sextets (equals_sign # s) = []"
  by (simp add: sextets_def low_byte_equals_sign)

lemma sextets_Nil: "sextets [] = []"
  by (simp add: sextets_def)

lemma base64_roundtrip: "base64_decode (base64_encode bs) = bs"
proof (induction bs rule: base64_encode.induct)
  case (1 x y z rest)
  then show ?case
    by (simp add: base64_decode_def sextets_legal enc1_le enc2_le enc3_le enc4_le
          dec_enc1 dec_enc2 dec_enc3)
next
  case (2 x y)
  have "byte2 (enc2 x y) (enc3 y 0) = y" by (rule dec_enc2)
  then show ?case
    by (simp add: base64_decode_def sextets_legal sextets_equals enc1_le enc2_le enc3_le dec_enc1)
next
  case (3 x)
  have "byte1 (enc1 x) (enc2 x 0) = x" by (rule dec_enc1)
  then show ?case
    by (simp add: base64_decode_def sextets_legal sextets_equals enc1_le enc2_le)
next
  case 4
  show ?case by (simp add: base64_decode_def sextets_Nil)
qed

lemma decode_hello:
  "base64_decode (lit ''SGVsbG8gV29ybGQ='') = [72, 101, 108, 108, 111, 32, 87, 111, 114, 108, 100]"
  by (simp add: base64_decode_def sextets_def unbase64_def low_byte_def
        code_unit_def byte1_def byte2_def byte3_def lit_simps)

lemma decode_hi: "base64_decode (lit ''SGk='') = [72, 105]"
  by (simp add: base64_decode_def sextets_def unbase64_def low_byte_def
        code_unit_def byte1_def byte2_def byte3_def lit_simps)

text \<open>
  A code unit above \<open>0xFF\<close> counts by its low byte: \<open>U+0153\<close> reads as \<open>S\<close>, and
  \<open>U+D83D\<close> reads as \<open>=\<close> and ends the decoding.
\<close>

lemma decode_low_byte:
  "base64_decode (0x0153 # lit ''Gk='') = [72, 105]"
  "base64_decode (lit ''S'' @ [0xD83D, 0xDE00] @ lit ''Gk'') = []"
  by (simp_all add: base64_decode_def sextets_def unbase64_def low_byte_def
        code_unit_def byte1_def byte2_def byte3_def lit_simps)

lemma encode_hi: "base64_encode [72, 105] = lit ''SGk=''"
  by (simp add: b64char_def enc1_def enc2_def enc3_def enc4_def equals_sign_def code_unit_def
        lit_simps)

subsection \<open>The stored blob over a page session\<close>

lemma generateAudio_blob:
  "currentAudioBlob (fst (generateAudio br net f c)) =
     (case attempt_blob br (net, f) of None \<Rightarrow> currentAudioBlob c | Some b \<Rightarrow> Some b)"
  by (simp add: generateAudio_def attempt_blob_def showError_def showSuccess_def hideLoading_def
        showLoading_def Let_def split: sum.splits)

lemma session_blob:
  "currentAudioBlob (session br as c) =
     (case List.map_filter (attempt_blob br) as of
        [] \<Rightarrow> currentAudioBlob c
      | b # bs \<Rightarrow> Some (last (b # bs)))"
proof (induction as arbitrary: c)
  case Nil
  show ?case by simp
next
  case (Cons a as)
  obtain net f where a: "a = (net, f)" by (cases a)
  show ?case
    by (cases "attempt_blob br (net, f)")
       (auto simp add: a Cons.IH generateAudio_blob split: list.splits)
qed

lemma map_filter_Nil_iff: "List.map_filter g xs = [] \<longleftrightarrow> (\<forall>x\<in>set xs. g x = None)"
  by (induction xs) (auto simp add: split: option.splits)

lemma validate_hello:
  "validate (lit ''Hello world, this is a test.'') = Inr (lit ''Hello world, this is a test.'')"
  by (simp add: validate_def trim_def is_white_space_def code_unit_def lit_simps)

section \<open>The browser script: validation and the stored artifact\<close>

text \<open>
  C3. The text of the form is trimmed and then checked. Validation stops with \<open>EmptyInput\<close>
  exactly when the trimmed text has length 0, with \<open>TooShort\<close> exactly when its length is
  between 1 and 9, and passes the trimmed text on exactly when its length is at least 10.
  When it stops, \<open>generateAudio\<close> only shows the message and sends no request.
\<close>

theorem client_validation:
  "(validate (scriptInput f) = Inl EmptyInput \<longleftrightarrow> length (trim (scriptInput f)) = 0) \<and>
   (validate (scriptInput f) = Inl TooShort \<longleftrightarrow>
      0 < length (trim (scriptInput f)) \<and> length (trim (scriptInput f)) < 10) \<and>
   (validate (scriptInput f) = Inr (trim (scriptInput f)) \<longleftrightarrow>
      10 \<le> length (trim (scriptInput f))) \<and>
   (\<forall>v. validate (scriptInput f) = Inl v \<longrightarrow>
      generateAudio br net f c = (showError (validation_message v) c, []))"
  by (auto simp add: validate_def Let_def generateAudio_def)

theorem client_validation_witness:
  "validate (lit ''  short  '') = Inl TooShort \<and>
   generateAudio plain_browser unreachable (filled_form ''  short  '') initial_client
     = (showError (validation_message TooShort) initial_client, [])"
  using client_validation [of "filled_form ''  short  ''" plain_browser unreachable initial_client]
  by (simp add: filled_form_def trim_def is_white_space_def code_unit_def lit_simps)

text \<open>
  C10. Take a page in the state \<open>c\<close> reached from the freshly loaded page by any
  sequence of earlier generation attempts, and one more attempt that fails: validation
  stops it, or an error reaches the \<open>catch\<close> (the relay answered with an error status, the
  request failed, or a body could not be read). Then the stored blob is unchanged. It is the
  blob of the last earlier attempt that succeeded. A download after the failed attempt saves
  that blob as \<open>voiceover-<now>.mp3\<close>, and it shows the no-audio error exactly when no
  earlier attempt succeeded.
\<close>

theorem failed_attempt_keeps_artifact:
  assumes "(\<exists>v. validate (scriptInput f) = Inl v) \<or>
           (\<exists>text e. validate (scriptInput f) = Inr text \<and> submit br net text f = Inl e)"
    and "c = session br attempts initial_client"
    and "c' = fst (generateAudio br net f c)"
  shows "currentAudioBlob c' = currentAudioBlob c \<and>
    currentAudioBlob c =
      (case List.map_filter (attempt_blob br) attempts of
         [] \<Rightarrow> None
       | b # bs \<Rightarrow> Some (last (b # bs))) \<and>
    (\<forall>b. currentAudioBlob c = Some b \<longrightarrow>
       downloadAudio br now c' =
         (c', Saved b (lit ''voiceover-'' @ to_string br (JNum (Finite (of_nat now)))
                        @ lit ''.mp3''))) \<and>
    (downloadAudio br now c' =
       (showError (lit ''No audio to download. Please generate audio first.'') c', NothingSaved)
     \<longleftrightarrow> (\<forall>a\<in>set attempts. attempt_blob br a = None)) \<and>
    (\<forall>text e. net (relay_request br text f) = Rejects e \<longrightarrow> submit br net text f = Inl e) \<and>
    (\<forall>text r. net (relay_request br text f) = Resolves r \<and> \<not> resp_ok r \<longrightarrow>
       (\<exists>e. submit br net text f = Inl e))"
proof -
  have fail: "attempt_blob br (net, f) = None"
    using assms(1) by (auto simp add: attempt_blob_def)
  have init: "currentAudioBlob initial_client = None"
    by (simp add: initial_client_def)
  have keep: "currentAudioBlob c' = currentAudioBlob c"
    by (simp add: assms(3) generateAudio_blob fail)
  have hist: "currentAudioBlob c =
      (case List.map_filter (attempt_blob br) attempts of
         [] \<Rightarrow> None
       | b # bs \<Rightarrow> Some (last (b # bs)))"
    by (simp add: assms(2) session_blob init split: list.split)
  have none: "currentAudioBlob c = None \<longleftrightarrow> (\<forall>a\<in>set attempts. attempt_blob br a = None)"
    unfolding hist by (simp add: map_filter_Nil_iff [symmetric] split: list.split)
  have saved: "\<forall>b. currentAudioBlob c = Some b \<longrightarrow>
       downloadAudio br now c' =
         (c', Saved b (lit ''voiceover-'' @ to_string br (JNum (Finite (of_nat now)))
                        @ lit ''.mp3''))"
    using keep by (simp add: downloadAudio_def)
  have unsaved: "downloadAudio br now c' =
       (showError (lit ''No audio to download. Please generate audio first.'') c', NothingSaved)
     \<longleftrightarrow> (\<forall>a\<in>set attempts. attempt_blob br a = None)"
    unfolding none [symmetric] keep [symmetric]
    by (simp add: downloadAudio_def split: option.split)
  have rej: "\<forall>text e. net (relay_request br text f) = Rejects e \<longrightarrow> submit br net text f = Inl e"
    by (simp add: submit_def)
  have notok: "\<forall>text r. net (relay_request br text f) = Resolves r \<and> \<not> resp_ok r \<longrightarrow>
       (\<exists>e. submit br net text f = Inl e)"
    by (auto simp add: submit_def split: awaited.split sum.split)
  from keep hist saved unsaved rej notok show ?thesis by blast
qed

theorem failed_attempt_keeps_artifact_witness:
  "currentAudioBlob
     (fst (generateAudio plain_browser unreachable (filled_form ''Hello world, this is a test.'')
        (session plain_browser
           [(replies (audio_reply [1, 2, 3]), filled_form ''Hello world, this is a test.'')]
           initial_client))) = Some [1, 2, 3] \<and>
   snd (downloadAudio plain_browser 0
     (fst (generateAudio plain_browser unreachable (filled_form ''Hello world, this is a test.'')
        (session plain_browser
           [(replies (audio_reply [1, 2, 3]), filled_form ''Hello world, this is a test.'')]
           initial_client))))
     = Saved [1, 2, 3] (lit ''voiceover-'' @ to_string plain_browser (JNum (Finite 0)) @ lit ''.mp3'')"
proof -
  have sub: "submit plain_browser unreachable (lit ''Hello world, this is a test.'')
               (filled_form ''Hello world, this is a test.'') = Inl (JsError (lit ''fetch failed''))"
    by (simp add: submit_def unreachable_def)
  have ok: "attempt_blob plain_browser
              (replies (audio_reply [1, 2, 3]), filled_form ''Hello world, this is a test.'')
            = Some [1, 2, 3]"
    by (simp add: attempt_blob_def filled_form_def validate_hello submit_def replies_def
          audio_reply_def resp_ok_def)
  have fails: "(\<exists>v. validate (scriptInput (filled_form ''Hello world, this is a test.'')) = Inl v) \<or>
     (\<exists>text e. validate (scriptInput (filled_form ''Hello world, this is a test.'')) = Inr text \<and>
        submit plain_browser unreachable text (filled_form ''Hello world, this is a test.'') = Inl e)"
    using sub by (simp add: filled_form_def validate_hello)
  from failed_attempt_keeps_artifact [OF fails refl refl,
         of "[(replies (audio_reply [1, 2, 3]), filled_form ''Hello world, this is a test.'')]" 0]
  show ?thesis
    by (simp add: ok)
qed

section \<open>The relay before the provider call\<close>

text \<open>
  C5. A POST whose body is missing \<open>text\<close> or \<open>voice\<close> is to be answered with status 400
  and \<open>{ error: "Missing required fields: text and voice" }\<close>. The handler does so for a
  body that is an object (\<open>missing_fields_rejected\<close>). A POST that carries no body at all,
  or the JSON body \<open>null\<close>, is missing both fields too, but there the destructuring in step 4
  throws before the check of step 5 is reached, outside the \<open>try\<close>: the handler sends no
  response, and the error leaves it unhandled.
\<close>

theorem missing_body_unhandled:
  "handler strict_node scenario_env unreachable \<lparr>req_method = lit ''POST'', req_body = JNull\<rparr>
     = (Unhandled (cannot_destructure ''null''), []) \<and>
   handler strict_node scenario_env unreachable \<lparr>req_method = lit ''POST'', req_body = JUndefined\<rparr>
     = (Unhandled (cannot_destructure ''undefined''), [])"
  by (simp add: handler_def prepare_def)

text \<open>
  C6. A POST whose body holds a \<open>text\<close> and a \<open>voice\<close> that pass the check of step 5 (both
  truthy), with no \<open>GOOGLE_CLOUD_API_KEY\<close> in the environment, is answered with status 500
  and \<open>{ error: "Server configuration error: API key not found" }\<close>, and no request goes
  to the provider.
\<close>

theorem missing_credential_rejected:
  assumes "req_method req = lit ''POST''"
    and "req_body req = JObj ps"
    and "map_of ps (lit ''text'') = Some text" and "truthy text"
    and "map_of ps (lit ''voice'') = Some voice" and "truthy voice"
    and "GOOGLE_CLOUD_API_KEY ev = None"
  shows "\<exists>res. handler nd ev net req = (Responded res, []) \<and> statusCode res = 500 \<and>
           sent res = Some (Json (JObj [(lit ''error'',
                        JStr (lit ''Server configuration error: API key not found''))]))"
proof -
  have "destructure (req_body req) = Inr (text, voice, get_prop_opt (JObj ps) (lit ''speed''))"
    using assms(2,3,5) by (simp add: destructure_present)
  then have "prepare ev req (cors new_response) =
    Done (Responded (json (error_body (JStr (lit ''Server configuration error: API key not found'')))
                       (status 500 (cors new_response))))"
    using assms(1,4,6,7) by (intro prepare_no_key)
  then show ?thesis by (simp add: handler_Done error_body_def)
qed

theorem missing_credential_rejected_witness:
  "\<exists>res. handler strict_node empty_env unreachable scenario_request = (Responded res, []) \<and>
     statusCode res = 500 \<and>
     sent res = Some (Json (JObj [(lit ''error'',
                  JStr (lit ''Server configuration error: API key not found''))]))"
  using missing_credential_rejected
    [of scenario_request
        "[(lit ''text'', JStr (lit ''Hello world, this is a test.'')),
          (lit ''voice'', JStr (lit ''en-US-Neural2-A'')),
          (lit ''speed'', JNum (Finite 1))]"
        "JStr (lit ''Hello world, this is a test.'')" "JStr (lit ''en-US-Neural2-A'')"
        empty_env strict_node unreachable]
  by (simp add: scenario_request_def empty_env_def)

text \<open>
  C4. For a POST whose body holds a truthy \<open>text\<close> and a non-empty string \<open>voice\<close>, with
  a non-empty key in the environment, the handler sends exactly one request to the provider.
  Its body is \<open>{ input: { text }, voice: { languageCode, name: voice }, audioConfig:
  { audioEncoding: "MP3", speakingRate, pitch: 0, volumeGainDb: 0 } }\<close>, where
  \<open>languageCode\<close> is the first two hyphen-separated segments of \<open>voice\<close> joined by a
  hyphen, and \<open>speakingRate\<close> is \<open>speed\<close> when that is truthy and 1 otherwise.
\<close>

theorem upstream_payload:
  assumes "req_method req = lit ''POST''"
    and "req_body req = JObj ps"
    and "map_of ps (lit ''text'') = Some text" and "truthy text"
    and "map_of ps (lit ''voice'') = Some (JStr v)" and "v \<noteq> []"
    and "GOOGLE_CLOUD_API_KEY ev = Some k" and "k \<noteq> []"
    and "speed = (case map_of ps (lit ''speed'') of None \<Rightarrow> JUndefined | Some s \<Rightarrow> s)"
  shows "snd (handler nd ev net req) =
     [\<lparr>fr_url = lit ''https://texttospeech.googleapis.com/v1/text:synthesize?key='' @ k,
       fr_method = lit ''POST'',
       fr_body = JObj
         [(lit ''input'', JObj [(lit ''text'', text)]),
          (lit ''voice'', JObj [(lit ''languageCode'', JStr (join hyphen (take 2 (split hyphen v)))),
                                (lit ''name'', JStr v)]),
          (lit ''audioConfig'', JObj
             [(lit ''audioEncoding'', JStr (lit ''MP3'')),
              (lit ''speakingRate'', if truthy speed then speed else JNum (Finite 1)),
              (lit ''pitch'', JNum (Finite 0)),
              (lit ''volumeGainDb'', JNum (Finite 0))])]\<rparr>]"
proof -
  have "destructure (req_body req) = Inr (text, JStr v, speed)"
    using assms(2,3,5,9) by simp
  from prepare_ready [OF assms(1) this assms(4,6,7,8), of "cors new_response"]
  show ?thesis
    by (simp add: handler_Ready upstream_request_def)
qed

theorem upstream_payload_witness:
  "snd (handler strict_node scenario_env unreachable scenario_request) =
     [\<lparr>fr_url = lit ''https://texttospeech.googleapis.com/v1/text:synthesize?key=secret'',
       fr_method = lit ''POST'',
       fr_body = JObj
         [(lit ''input'', JObj [(lit ''text'', JStr (lit ''Hello world, this is a test.''))]),
          (lit ''voice'', JObj [(lit ''languageCode'', JStr (lit ''en-US'')),
                                (lit ''name'', JStr (lit ''en-US-Neural2-A''))]),
          (lit ''audioConfig'', JObj
             [(lit ''audioEncoding'', JStr (lit ''MP3'')),
              (lit ''speakingRate'', JNum (Finite 1)),
              (lit ''pitch'', JNum (Finite 0)),
              (lit ''volumeGainDb'', JNum (Finite 0))])]\<rparr>]"
  using upstream_payload
    [of scenario_request
        "[(lit ''text'', JStr (lit ''Hello world, this is a test.'')),
          (lit ''voice'', JStr (lit ''en-US-Neural2-A'')),
          (lit ''speed'', JNum (Finite 1))]"
        "JStr (lit ''Hello world, this is a test.'')" "lit ''en-US-Neural2-A''"
        scenario_env "lit ''secret''" "JNum (Finite 1)" strict_node unreachable]
  by (simp add: scenario_request_def scenario_env_def hyphen_def lit_simps)

section \<open>The relay after the provider call\<close>

text \<open>
  C1. When the handler reaches the provider, the provider answers with a success status,
  and the parsed answer holds a non-empty string under \<open>audioContent\<close>, the relay answers
  with status 200, \<open>Content-Type: audio/mpeg\<close>, a \<open>Content-Length\<close> equal to the number
  of decoded bytes, and the base64-decoded bytes as the body.
\<close>

theorem audio_response:
  assumes "prepare ev req (cors new_response) = Ready k b"
    and "net (upstream_request k b) = Resolves r" and "resp_ok r"
    and "resp_json r = Resolves (JObj ps)"
    and "map_of ps (lit ''audioContent'') = Some (JStr s)" and "s \<noteq> []"
  shows "\<exists>res. fst (handler nd ev net req) = Responded res \<and> statusCode res = 200 \<and>
      map_of (headers res) (lit ''Content-Type'') = Some (JStr (lit ''audio/mpeg'')) \<and>
      map_of (headers res) (lit ''Content-Length'')
        = Some (JNum (Finite (of_nat (length (base64_decode s))))) \<and>
      sent res = Some (Raw (base64_decode s))"
  using assms(2-6) by (simp add: handler_Ready [OF assms(1)] call_upstream_audio)

theorem audio_response_witness:
  "\<exists>res. fst (handler strict_node scenario_env
               (replies (json_reply 200 (JObj [(lit ''audioContent'', JStr (lit ''SGVsbG8gV29ybGQ=''))])))
               scenario_request) = Responded res \<and>
     statusCode res = 200 \<and>
     map_of (headers res) (lit ''Content-Type'') = Some (JStr (lit ''audio/mpeg'')) \<and>
     map_of (headers res) (lit ''Content-Length'') = Some (JNum (Finite 11)) \<and>
     sent res = Some (Raw [72, 101, 108, 108, 111, 32, 87, 111, 114, 108, 100])"
  using audio_response
    [OF scenario_prepare,
     of "replies (json_reply 200 (JObj [(lit ''audioContent'', JStr (lit ''SGVsbG8gV29ybGQ=''))]))"
        "json_reply 200 (JObj [(lit ''audioContent'', JStr (lit ''SGVsbG8gV29ybGQ=''))])"
        "[(lit ''audioContent'', JStr (lit ''SGVsbG8gV29ybGQ=''))]" "lit ''SGVsbG8gV29ybGQ=''"
        strict_node]
  by (simp add: replies_def json_reply_def resp_ok_def decode_hello)

text \<open>
  C2, as the claim has it, fails: the provider answers 403 with the JSON body \<open>null\<close>, which
  parses and holds no message. Reading \<open>errorData.error\<close> throws, the \<open>catch\<close> takes over,
  and the relay answers 500 with the internal-error message, not 403 with the fallback. And
  when the provider answers 403 with \<open>{ error: { message: "" } }\<close>, a body that carries the
  message field, the relay answers with the fallback and not with \<open>{ error: "" }\<close>.
\<close>

theorem null_error_body_counterexample:
  "fst (handler strict_node scenario_env (replies (json_reply 403 JNull)) scenario_request) =
     Responded \<lparr>statusCode = 500, headers = headers (cors new_response),
       sent = Some (Json (JObj [(lit ''error'',
                JStr (lit ''Internal server error: ''
                      @ message (cannot_read ''null'' (lit ''error''))))]))\<rparr> \<and>
   fst (handler strict_node scenario_env
          (replies (json_reply 403 (JObj [(lit ''error'', JObj [(lit ''message'', JStr [])])])))
          scenario_request) =
     Responded \<lparr>statusCode = 403, headers = headers (cors new_response),
       sent = Some (Json (JObj [(lit ''error'', JStr (lit ''Failed to generate speech''))]))\<rparr> \<and>
   JStr (lit ''Failed to generate speech'') \<noteq> JStr []"
  by (simp add: handler_Ready [OF scenario_prepare] call_upstream_def replies_def json_reply_def
        resp_ok_def error_body_def json_def status_def js_or_def)

text \<open>
  C2, amended. When the provider answers with a status \<open>S\<close> outside 200..299 and a body that
  parses to a JSON value other than \<open>null\<close>, the relay answers with the same status \<open>S\<close>.
  With \<open>m\<close> the value of \<open>error.message\<close> in the parsed body (\<open>undefined\<close> where \<open>error\<close>
  or \<open>message\<close> is absent), the body is \<open>{ error: m }\<close> when \<open>m\<close> is truthy and
  \<open>{ error: "Failed to generate speech" }\<close> otherwise.
\<close>

theorem upstream_error_forwarded:
  assumes "prepare ev req (cors new_response) = Ready k b"
    and "net (upstream_request k b) = Resolves r" and "\<not> resp_ok r"
    and "resp_json r = Resolves errorData"
    and "errorData \<noteq> JNull" and "errorData \<noteq> JUndefined"
    and "m = get_prop_opt (get_prop_opt errorData (lit ''error'')) (lit ''message'')"
  shows "\<exists>res. fst (handler nd ev net req) = Responded res \<and> statusCode res = resp_status r \<and>
      sent res = Some (Json (JObj [(lit ''error'',
                   if truthy m then m else JStr (lit ''Failed to generate speech''))]))"
  using assms(2-7)
  by (simp add: handler_Ready [OF assms(1)] call_upstream_def get_prop_nonnull js_or_def
        error_body_def)

theorem upstream_error_forwarded_witness:
  "\<exists>res. fst (handler strict_node scenario_env
        (replies (json_reply 403
           (JObj [(lit ''error'', JObj [(lit ''message'', JStr (lit ''quota exceeded''))])])))
        scenario_request) = Responded res \<and> statusCode res = 403 \<and>
      sent res = Some (Json (JObj [(lit ''error'', JStr (lit ''quota exceeded''))]))"
  using upstream_error_forwarded
    [OF scenario_prepare,
     of "replies (json_reply 403
           (JObj [(lit ''error'', JObj [(lit ''message'', JStr (lit ''quota exceeded''))])]))"
        "json_reply 403 (JObj [(lit ''error'', JObj [(lit ''message'', JStr (lit ''quota exceeded''))])])"
        "JObj [(lit ''error'', JObj [(lit ''message'', JStr (lit ''quota exceeded''))])]"
        "JStr (lit ''quota exceeded'')" strict_node]
  by (simp add: replies_def json_reply_def resp_ok_def)

text \<open>
  C7, as the claim has it, fails: the provider answers 200 with the JSON body \<open>null\<close>, a
  payload with no audio field. Reading \<open>data.audioContent\<close> throws, and the relay answers
  500 with the internal-error message of the \<open>catch\<close>, which is not
  \<open>No audio content received from Google\<close>.
\<close>

theorem null_payload_counterexample:
  "fst (handler strict_node scenario_env (replies (json_reply 200 JNull)) scenario_request) =
     Responded \<lparr>statusCode = 500, headers = headers (cors new_response),
       sent = Some (Json (JObj [(lit ''error'',
                JStr (lit ''Internal server error: ''
                      @ message (cannot_read ''null'' (lit ''audioContent''))))]))\<rparr> \<and>
   lit ''Internal server error: '' @ message (cannot_read ''null'' (lit ''audioContent''))
     \<noteq> lit ''No audio content received from Google''"
  by (simp add: handler_Ready [OF scenario_prepare] call_upstream_def replies_def json_reply_def
        resp_ok_def error_body_def json_def status_def cannot_read_def lit_simps)

text \<open>
  C7, amended. When the provider answers with a success status and a body that parses to a
  JSON value other than \<open>null\<close> whose \<open>audioContent\<close> is absent or falsy, the relay
  answers with status 500 and \<open>{ error: "No audio content received from Google" }\<close>.
\<close>

theorem no_audio_content:
  assumes "prepare ev req (cors new_response) = Ready k b"
    and "net (upstream_request k b) = Resolves r" and "resp_ok r"
    and "resp_json r = Resolves data"
    and "data \<noteq> JNull" and "data \<noteq> JUndefined"
    and "\<not> truthy (get_prop_opt data (lit ''audioContent''))"
  shows "\<exists>res. fst (handler nd ev net req) = Responded res \<and> statusCode res = 500 \<and>
      sent res = Some (Json (JObj [(lit ''error'',
                   JStr (lit ''No audio content received from Google''))]))"
  using assms(2-7)
  by (simp add: handler_Ready [OF assms(1)] call_upstream_def get_prop_nonnull error_body_def)

theorem no_audio_content_witness:
  "\<exists>res. fst (handler strict_node scenario_env (replies (json_reply 200 (JObj [])))
               scenario_request) = Responded res \<and> statusCode res = 500 \<and>
      sent res = Some (Json (JObj [(lit ''error'',
                   JStr (lit ''No audio content received from Google''))]))"
  using no_audio_content
    [OF scenario_prepare, of "replies (json_reply 200 (JObj []))" "json_reply 200 (JObj [])"
        "JObj []" strict_node]
  by (simp add: replies_def json_reply_def resp_ok_def)

text \<open>
  C8. Once the handler has reached the \<open>try\<close> block, it always ends with a response,
  whatever the provider call does. Whenever an error \<open>e\<close> is thrown inside the block, the
  response has status 500 and the body \<open>{ error: "Internal server error: " + e.message }\<close>.
  A rejected \<open>fetch\<close>, a body that fails to parse, and a \<open>Buffer.from\<close> that throws are
  such errors. (Errors thrown before the \<open>try\<close>, while the request body is taken apart or
  the provider request is built, are not caught.)
\<close>

theorem upstream_failures_caught:
  assumes "prepare ev req (cors new_response) = Ready k b"
  shows "(\<exists>res. fst (handler nd ev net req) = Responded res) \<and>
    (\<forall>e res1. call_upstream nd net k b (cors new_response) = Inl (e, res1) \<longrightarrow>
       (\<exists>res. fst (handler nd ev net req) = Responded res \<and> statusCode res = 500 \<and>
          sent res = Some (Json (JObj [(lit ''error'',
                       JStr (lit ''Internal server error: '' @ message e))])))) \<and>
    (\<forall>e. net (upstream_request k b) = Rejects e \<longrightarrow>
       call_upstream nd net k b (cors new_response) = Inl (e, cors new_response)) \<and>
    (\<forall>r e. net (upstream_request k b) = Resolves r \<and> resp_json r = Rejects e \<longrightarrow>
       call_upstream nd net k b (cors new_response) = Inl (e, cors new_response)) \<and>
    (\<forall>r data a e. net (upstream_request k b) = Resolves r \<and> resp_ok r \<and>
        resp_json r = Resolves data \<and> get_prop data (lit ''audioContent'') = Inr a \<and>
        truthy a \<and> Buffer_from nd a = Inl e \<longrightarrow>
       call_upstream nd net k b (cors new_response) = Inl (e, cors new_response))"
proof (intro conjI allI impI)
  show "\<exists>res. fst (handler nd ev net req) = Responded res"
    by (simp add: handler_Ready [OF assms] split: sum.split prod.split)
next
  fix e res1 assume "call_upstream nd net k b (cors new_response) = Inl (e, res1)"
  then show "\<exists>res. fst (handler nd ev net req) = Responded res \<and> statusCode res = 500 \<and>
          sent res = Some (Json (JObj [(lit ''error'',
                       JStr (lit ''Internal server error: '' @ message e))]))"
    by (simp add: handler_Ready [OF assms] error_body_def)
next
  fix e assume "net (upstream_request k b) = Rejects e"
  then show "call_upstream nd net k b (cors new_response) = Inl (e, cors new_response)"
    by (simp add: call_upstream_def)
next
  fix r e assume "net (upstream_request k b) = Resolves r \<and> resp_json r = Rejects e"
  then show "call_upstream nd net k b (cors new_response) = Inl (e, cors new_response)"
    by (simp add: call_upstream_def)
next
  fix r data a e
  assume "net (upstream_request k b) = Resolves r \<and> resp_ok r \<and>
        resp_json r = Resolves data \<and> get_prop data (lit ''audioContent'') = Inr a \<and>
        truthy a \<and> Buffer_from nd a = Inl e"
  then show "call_upstream nd net k b (cors new_response) = Inl (e, cors new_response)"
    by (simp add: call_upstream_def)
qed

theorem upstream_failures_caught_witness:
  "\<exists>res. fst (handler strict_node scenario_env unreachable scenario_request) = Responded res \<and>
     statusCode res = 500 \<and>
     sent res = Some (Json (JObj [(lit ''error'',
                  JStr (lit ''Internal server error: fetch failed''))]))"
proof -
  have "call_upstream strict_node unreachable (lit ''secret'') scenario_payload (cors new_response)
          = Inl (JsError (lit ''fetch failed''), cors new_response)"
    using upstream_failures_caught [OF scenario_prepare, of strict_node unreachable]
    by (simp add: unreachable_def)
  with upstream_failures_caught [OF scenario_prepare, of strict_node unreachable]
  show ?thesis by fastforce
qed

text \<open>
  C9. Decoding the base64 encoding of any byte sequence \<open>B\<close> with \<open>Buffer.from\<close> gives
  back exactly \<open>B\<close>. And the decoded audio depends on the audio string alone: two
  invocations, of any requests, environments and platforms, whose provider answers carry
  the same non-empty audio string send the same bytes, the decoding of that string, under
  the same \<open>Content-Length\<close>, the number of those bytes.
\<close>

theorem transcoding_round_trip:
  "Buffer_from nd (JStr (base64_encode B)) = Inr B \<and>
   (\<forall>nda eva neta reqa ka ba ra psa ndb evb netb reqb kb bb rb psb s.
      prepare eva reqa (cors new_response) = Ready ka ba \<and>
      neta (upstream_request ka ba) = Resolves ra \<and> resp_ok ra \<and>
      resp_json ra = Resolves (JObj psa) \<and>
      map_of psa (lit ''audioContent'') = Some (JStr s) \<and>
      prepare evb reqb (cors new_response) = Ready kb bb \<and>
      netb (upstream_request kb bb) = Resolves rb \<and> resp_ok rb \<and>
      resp_json rb = Resolves (JObj psb) \<and>
      map_of psb (lit ''audioContent'') = Some (JStr s) \<and> s \<noteq> [] \<longrightarrow>
      (\<exists>resa resb.
         fst (handler nda eva neta reqa) = Responded resa \<and>
         fst (handler ndb evb netb reqb) = Responded resb \<and>
         sent resa = Some (Raw (base64_decode s)) \<and> sent resb = sent resa \<and>
         map_of (headers resa) (lit ''Content-Length'')
           = Some (JNum (Finite (of_nat (length (base64_decode s))))) \<and>
         map_of (headers resb) (lit ''Content-Length'')
           = map_of (headers resa) (lit ''Content-Length'')))"
proof (intro conjI allI impI)
  show "Buffer_from nd (JStr (base64_encode B)) = Inr B"
    by (simp add: Buffer_from_def base64_roundtrip)
next
  fix nda eva neta reqa ka ba ra psa ndb evb netb reqb kb bb rb psb s
  assume h: "prepare eva reqa (cors new_response) = Ready ka ba \<and>
      neta (upstream_request ka ba) = Resolves ra \<and> resp_ok ra \<and>
      resp_json ra = Resolves (JObj psa) \<and>
      map_of psa (lit ''audioContent'') = Some (JStr s) \<and>
      prepare evb reqb (cors new_response) = Ready kb bb \<and>
      netb (upstream_request kb bb) = Resolves rb \<and> resp_ok rb \<and>
      resp_json rb = Resolves (JObj psb) \<and>
      map_of psb (lit ''audioContent'') = Some (JStr s) \<and> s \<noteq> []"
  then have a: "prepare eva reqa (cors new_response) = Ready ka ba"
    and b: "prepare evb reqb (cors new_response) = Ready kb bb" by simp_all
  from h show "\<exists>resa resb.
         fst (handler nda eva neta reqa) = Responded resa \<and>
         fst (handler ndb evb netb reqb) = Responded resb \<and>
         sent resa = Some (Raw (base64_decode s)) \<and> sent resb = sent resa \<and>
         map_of (headers resa) (lit ''Content-Length'')
           = Some (JNum (Finite (of_nat (length (base64_decode s))))) \<and>
         map_of (headers resb) (lit ''Content-Length'')
           = map_of (headers resa) (lit ''Content-Length'')"
    by (simp add: handler_Ready [OF a] handler_Ready [OF b] call_upstream_audio)
qed

theorem transcoding_round_trip_witness:
  "Buffer_from strict_node (JStr (lit ''SGk='')) = Inr [72, 105] \<and>
   (\<exists>resa resb.
      fst (handler strict_node scenario_env
             (replies (json_reply 200 (JObj [(lit ''audioContent'', JStr (lit ''SGk=''))])))
             scenario_request) = Responded resa \<and>
      fst (handler strict_node scenario_env
             (replies (json_reply 201 (JObj [(lit ''audioContent'', JStr (lit ''SGk=''))])))
             scenario_request) = Responded resb \<and>
      sent resa = Some (Raw [72, 105]) \<and> sent resb = sent resa \<and>
      map_of (headers resa) (lit ''Content-Length'') = Some (JNum (Finite 2)) \<and>
      map_of (headers resb) (lit ''Content-Length'')
        = map_of (headers resa) (lit ''Content-Length''))"
proof -
  have h: "prepare scenario_env scenario_request (cors new_response)
        = Ready (lit ''secret'') scenario_payload \<and>
      replies (json_reply 200 (JObj [(lit ''audioContent'', JStr (lit ''SGk=''))]))
         (upstream_request (lit ''secret'') scenario_payload)
        = Resolves (json_reply 200 (JObj [(lit ''audioContent'', JStr (lit ''SGk=''))])) \<and>
      resp_ok (json_reply 200 (JObj [(lit ''audioContent'', JStr (lit ''SGk=''))])) \<and>
      resp_json (json_reply 200 (JObj [(lit ''audioContent'', JStr (lit ''SGk=''))]))
        = Resolves (JObj [(lit ''audioContent'', JStr (lit ''SGk=''))]) \<and>
      map_of [(lit ''audioContent'', JStr (lit ''SGk=''))] (lit ''audioContent'')
        = Some (JStr (lit ''SGk='')) \<and>
      prepare scenario_env scenario_request (cors new_response)
        = Ready (lit ''secret'') scenario_payload \<and>
      replies (json_reply 201 (JObj [(lit ''audioContent'', JStr (lit ''SGk=''))]))
         (upstream_request (lit ''secret'') scenario_payload)
        = Resolves (json_reply 201 (JObj [(lit ''audioContent'', JStr (lit ''SGk=''))])) \<and>
      resp_ok (json_reply 201 (JObj [(lit ''audioContent'', JStr (lit ''SGk=''))])) \<and>
      resp_json (json_reply 201 (JObj [(lit ''audioContent'', JStr (lit ''SGk=''))]))
        = Resolves (JObj [(lit ''audioContent'', JStr (lit ''SGk=''))]) \<and>
      map_of [(lit ''audioContent'', JStr (lit ''SGk=''))] (lit ''audioContent'')
        = Some (JStr (lit ''SGk='')) \<and>
      lit ''SGk='' \<noteq> []"
    by (simp add: scenario_prepare replies_def json_reply_def resp_ok_def)
  note rt = transcoding_round_trip [of strict_node "[72, 105]"]
  have a: "Buffer_from strict_node (JStr (lit ''SGk='')) = Inr [72, 105]"
    using rt [THEN conjunct1] unfolding encode_hi .
  note both = rt [THEN conjunct2, rule_format,
    where nda = strict_node and ndb = strict_node
      and neta = "replies (json_reply 200 (JObj [(lit ''audioContent'', JStr (lit ''SGk=''))]))"
      and netb = "replies (json_reply 201 (JObj [(lit ''audioContent'', JStr (lit ''SGk=''))]))"]
  from both [OF h] a show ?thesis by (simp add: decode_hi)
qed

end
